theory Spec2Isabelle
  imports Main "HOL-Library.Word"
begin

section \<open>The shim of LambdaBuilder.c\<close>

text \<open>
  \<^verbatim>\<open>Sources/libpylamsupport/LambdaBuilder.c\<close> keeps seven file-level variables: the
  handle of the loaded Python library and six function pointers, one per entry point of
  the Python C API. \<^verbatim>\<open>initialisePythonLibrary\<close> fills the pointers by symbol lookup;
  every other function calls through one of them.

  The model follows the \<^verbatim>\<open>#else\<close> branch (\<^verbatim>\<open>dlsym\<close>) on an LP64 platform: \<^verbatim>\<open>int\<close> has
  32 bits; \<^verbatim>\<open>long int\<close>, \<^verbatim>\<open>double\<close> and every pointer have 64. A \<^verbatim>\<open>double\<close> is carried
  as its 64-bit pattern: the shim passes it on and never computes with it. The
  \<^verbatim>\<open>_WIN32\<close> branch differs only in the name of the lookup function.
\<close>

subsection \<open>C values\<close>

type_synonym cell = "64 word"
type_synonym ptr = "64 word"
type_synonym c_long = "64 word"
type_synonym c_double = "64 word"
type_synonym c_int = "32 word"

abbreviation NULL :: ptr where
  "NULL \<equiv> 0"

subsection \<open>Outcomes of a C function\<close>

text \<open>
  A call either has undefined behaviour (a call through a null function pointer, a store
  through a null pointer), or ends the process with \<^verbatim>\<open>exit\<close>, or returns a value. The
  last two carry the state reached.
\<close>

datatype ('r, 's) outcome =
    Undefined
  | Exited c_int 's
  | Returned 'r 's

definition bind_outcome ::
  "('a, 's) outcome \<Rightarrow> ('a \<Rightarrow> 's \<Rightarrow> ('b, 's) outcome) \<Rightarrow> ('b, 's) outcome" where
  "bind_outcome m f =
     (case m of
        Undefined \<Rightarrow> Undefined
      | Exited c s \<Rightarrow> Exited c s
      | Returned r s \<Rightarrow> f r s)"

subsection \<open>The world outside the shim\<close>

text \<open>
  What the shim calls is not its own code. The record \<open>extern\<close> holds it: the symbol
  lookup of the dynamic loader, and for every address \<open>f\<close> the behaviour of the code at
  \<open>f\<close> when it is called through a pointer of each of the six types. \<open>'w\<close> is the
  state of the Python runtime, which those calls read and change.

  \<^verbatim>\<open>PyArg_ParseTuple\<close> is variadic and receives pointers to local variables of the shim.
  Its behaviour returns, with the \<^verbatim>\<open>int\<close> status, the contents of the pointed-to
  variables at the moment the call returns, by position (\<open>0\<close> for the first pointer
  after the format). A variable the callee does not write keeps its indeterminate
  initial value, so that value too is fixed by this function.

  \<open>c_string\<close> reads the NUL-terminated string at an address (\<open>None\<close> where there is
  none); only the \<^verbatim>\<open>%s\<close> of \<^verbatim>\<open>debug_showAddress\<close> needs it.
\<close>

record 'w extern =
  dlsym :: "ptr \<Rightarrow> string \<Rightarrow> ptr"
  fn_parsetuple :: "ptr \<Rightarrow> ptr \<Rightarrow> string \<Rightarrow> 'w \<Rightarrow> c_int \<times> (nat \<Rightarrow> cell) \<times> 'w"
  fn_buildvalue :: "ptr \<Rightarrow> string \<Rightarrow> cell list \<Rightarrow> 'w \<Rightarrow> ptr \<times> 'w"
  fn_asutf8 :: "ptr \<Rightarrow> ptr \<Rightarrow> 'w \<Rightarrow> ptr \<times> 'w"
  fn_fromstring :: "ptr \<Rightarrow> ptr \<Rightarrow> 'w \<Rightarrow> ptr \<times> 'w"
  fn_newex :: "ptr \<Rightarrow> ptr \<Rightarrow> ptr \<Rightarrow> ptr \<Rightarrow> 'w \<Rightarrow> ptr \<times> 'w"
  fn_boolfromlong :: "ptr \<Rightarrow> c_long \<Rightarrow> 'w \<Rightarrow> ptr \<times> 'w"
  c_string :: "ptr \<Rightarrow> string option"

text \<open>
  Every call that leaves the shim is recorded, in order, with the address called and the
  arguments passed. For \<^verbatim>\<open>PyArg_ParseTuple\<close> the last component is the number of
  pointers passed after the format.
\<close>

datatype event =
    Call_dlsym ptr string
  | Call_parsetuple ptr ptr string nat
  | Call_buildvalue ptr string "cell list"
  | Call_asutf8 ptr ptr
  | Call_fromstring ptr ptr
  | Call_newex ptr ptr ptr ptr
  | Call_boolfromlong ptr c_long

subsection \<open>State\<close>

text \<open>
  The first seven fields are the file-level variables of LambdaBuilder.c
  (\<^verbatim>\<open>_pythonLibraryHandle\<close> without its underscore). \<open>runtime\<close> is the state of the
  Python runtime; \<open>mem\<close> is the caller's memory, which the shim writes through the
  out-pointers it is given; \<open>calls\<close> is the record of outgoing calls; \<open>stdout\<close>
  is what \<^verbatim>\<open>printf\<close> has written. The seven variables are not part of \<open>mem\<close>: an
  out-pointer does not point at them.
\<close>

record 'w state =
  pythonLibraryHandle :: ptr
  pyarg_parsetuple :: ptr
  py_buildvalue :: ptr
  pyunicode_asutf8 :: ptr
  pyunicode_fromstring :: ptr
  py_createPyCFunction :: ptr
  py_boolfromlong :: ptr
  runtime :: 'w
  mem :: "ptr \<Rightarrow> cell"
  calls :: "event list"
  stdout :: string

subsection \<open>initialisePythonLibrary\<close>

text \<open>\<^verbatim>\<open>dlsym(_pythonLibraryHandle, name)\<close>: the lookup goes to the stored handle.\<close>

definition lookup_symbol :: "'w extern \<Rightarrow> string \<Rightarrow> 'w state \<Rightarrow> ptr \<times> 'w state" where
  "lookup_symbol ext name st =
     (dlsym ext (pythonLibraryHandle st) name,
      st\<lparr>calls := calls st @ [Call_dlsym (pythonLibraryHandle st) name]\<rparr>)"

text \<open>
  The function is declared \<^verbatim>\<open>int\<close> and its body has no \<^verbatim>\<open>return\<close> statement: control
  reaches the closing brace, and no value is returned (\<open>None\<close>).
\<close>

definition initialisePythonLibrary ::
  "'w extern \<Rightarrow> ptr \<Rightarrow> 'w state \<Rightarrow> (c_int option, 'w state) outcome" where
  "initialisePythonLibrary ext libraryHandle st0 =
     (let st = st0\<lparr>pythonLibraryHandle := libraryHandle\<rparr>;
          (p, st) = lookup_symbol ext ''PyArg_ParseTuple'' st;
          st = st\<lparr>pyarg_parsetuple := p\<rparr>;
          (p, st) = lookup_symbol ext ''Py_BuildValue'' st;
          st = st\<lparr>py_buildvalue := p\<rparr>;
          (p, st) = lookup_symbol ext ''PyUnicode_AsUTF8'' st;
          st = st\<lparr>pyunicode_asutf8 := p\<rparr>;
          (p, st) = lookup_symbol ext ''PyUnicode_FromString'' st;
          st = st\<lparr>pyunicode_fromstring := p\<rparr>;
          (p, st) = lookup_symbol ext ''PyBool_FromLong'' st;
          st = st\<lparr>py_boolfromlong := p\<rparr>;
          (p, st) = lookup_symbol ext ''PyCFunction_NewEx'' st;
          st = st\<lparr>py_createPyCFunction := p\<rparr>
      in Returned None st)"

subsection \<open>Calls through the six pointers\<close>

text \<open>
  The C expression \<^verbatim>\<open>(*p)(...)\<close> on each of the six pointers. Where the pointer is
  null the call has undefined behaviour; this is the meaning of the call in C, the
  source has no test there. Otherwise the code at the address runs, the runtime state
  changes as it says, and the call is recorded.
\<close>

definition call_pyarg_parsetuple ::
  "'w extern \<Rightarrow> ptr \<Rightarrow> string \<Rightarrow> nat \<Rightarrow> 'w state \<Rightarrow> (c_int \<times> (nat \<Rightarrow> cell), 'w state) outcome" where
  "call_pyarg_parsetuple ext args format n st =
     (let f = pyarg_parsetuple st in
      if f = NULL then Undefined
      else
        let (result, outs, w) = fn_parsetuple ext f args format (runtime st)
        in Returned (result, outs)
             (st\<lparr>runtime := w, calls := calls st @ [Call_parsetuple f args format n]\<rparr>))"

definition call_py_buildvalue ::
  "'w extern \<Rightarrow> string \<Rightarrow> cell list \<Rightarrow> 'w state \<Rightarrow> (ptr, 'w state) outcome" where
  "call_py_buildvalue ext format vs st =
     (let f = py_buildvalue st in
      if f = NULL then Undefined
      else
        let (r, w) = fn_buildvalue ext f format vs (runtime st)
        in Returned r (st\<lparr>runtime := w, calls := calls st @ [Call_buildvalue f format vs]\<rparr>))"

definition call_pyunicode_asutf8 ::
  "'w extern \<Rightarrow> ptr \<Rightarrow> 'w state \<Rightarrow> (ptr, 'w state) outcome" where
  "call_pyunicode_asutf8 ext p st =
     (let f = pyunicode_asutf8 st in
      if f = NULL then Undefined
      else
        let (r, w) = fn_asutf8 ext f p (runtime st)
        in Returned r (st\<lparr>runtime := w, calls := calls st @ [Call_asutf8 f p]\<rparr>))"

definition call_pyunicode_fromstring ::
  "'w extern \<Rightarrow> ptr \<Rightarrow> 'w state \<Rightarrow> (ptr, 'w state) outcome" where
  "call_pyunicode_fromstring ext u st =
     (let f = pyunicode_fromstring st in
      if f = NULL then Undefined
      else
        let (r, w) = fn_fromstring ext f u (runtime st)
        in Returned r (st\<lparr>runtime := w, calls := calls st @ [Call_fromstring f u]\<rparr>))"

definition call_py_createPyCFunction ::
  "'w extern \<Rightarrow> ptr \<Rightarrow> ptr \<Rightarrow> ptr \<Rightarrow> 'w state \<Rightarrow> (ptr, 'w state) outcome" where
  "call_py_createPyCFunction ext ml data module st =
     (let f = py_createPyCFunction st in
      if f = NULL then Undefined
      else
        let (r, w) = fn_newex ext f ml data module (runtime st)
        in Returned r (st\<lparr>runtime := w, calls := calls st @ [Call_newex f ml data module]\<rparr>))"

definition call_py_boolfromlong ::
  "'w extern \<Rightarrow> c_long \<Rightarrow> 'w state \<Rightarrow> (ptr, 'w state) outcome" where
  "call_py_boolfromlong ext v st =
     (let f = py_boolfromlong st in
      if f = NULL then Undefined
      else
        let (r, w) = fn_boolfromlong ext f v (runtime st)
        in Returned r (st\<lparr>runtime := w, calls := calls st @ [Call_boolfromlong f v]\<rparr>))"

text \<open>
  The assignment \<^verbatim>\<open>*p = v\<close> through a pointer of the caller: undefined through a null
  pointer; any other address is taken to be an object the caller owns.
\<close>

definition store :: "ptr \<Rightarrow> cell \<Rightarrow> 'w state \<Rightarrow> (unit, 'w state) outcome" where
  "store p v st =
     (if p = NULL then Undefined else Returned () (st\<lparr>mem := (mem st)(p := v)\<rparr>))"

subsection \<open>The parse functions\<close>

text \<open>
  Each declares its locals, passes their addresses to \<^verbatim>\<open>PyArg_ParseTuple\<close>, assigns the
  \<^verbatim>\<open>int\<close> result to \<^verbatim>\<open>*error\<close> (a \<^verbatim>\<open>long int\<close>: the conversion extends the sign) and
  hands the locals back.
\<close>

definition parseArgsToString ::
  "'w extern \<Rightarrow> ptr \<Rightarrow> ptr \<Rightarrow> 'w state \<Rightarrow> (ptr, 'w state) outcome" where
  "parseArgsToString ext args error st0 =
     bind_outcome (call_pyarg_parsetuple ext args ''s'' 1 st0) (\<lambda>(result, outs) st.
       let val = outs 0 in
       bind_outcome (store error (scast result) st) (\<lambda>_ st.
         Returned val st))"

definition parseArgsToDouble ::
  "'w extern \<Rightarrow> ptr \<Rightarrow> ptr \<Rightarrow> 'w state \<Rightarrow> (c_double, 'w state) outcome" where
  "parseArgsToDouble ext args error st0 =
     bind_outcome (call_pyarg_parsetuple ext args ''d'' 1 st0) (\<lambda>(result, outs) st.
       let val = outs 0 in
       bind_outcome (store error (scast result) st) (\<lambda>_ st.
         Returned val st))"

definition parseArgsToLongInt ::
  "'w extern \<Rightarrow> ptr \<Rightarrow> ptr \<Rightarrow> 'w state \<Rightarrow> (c_long, 'w state) outcome" where
  "parseArgsToLongInt ext args error st0 =
     bind_outcome (call_pyarg_parsetuple ext args ''l'' 1 st0) (\<lambda>(result, outs) st.
       let val = outs 0 in
       bind_outcome (store error (scast result) st) (\<lambda>_ st.
         Returned val st))"

definition parseArgsToObject ::
  "'w extern \<Rightarrow> ptr \<Rightarrow> ptr \<Rightarrow> 'w state \<Rightarrow> (ptr, 'w state) outcome" where
  "parseArgsToObject ext args error st0 =
     bind_outcome (call_pyarg_parsetuple ext args ''O'' 1 st0) (\<lambda>(result, outs) st.
       let val = outs 0 in
       bind_outcome (store error (scast result) st) (\<lambda>_ st.
         Returned val st))"

definition parseArgsToObjectPair ::
  "'w extern \<Rightarrow> ptr \<Rightarrow> ptr \<Rightarrow> ptr \<Rightarrow> 'w state \<Rightarrow> (ptr, 'w state) outcome" where
  "parseArgsToObjectPair ext args objectB error st0 =
     bind_outcome (call_pyarg_parsetuple ext args ''OO'' 2 st0) (\<lambda>(result, outs) st.
       let valueA = outs 0; valueB = outs 1 in
       bind_outcome (store error (scast result) st) (\<lambda>_ st.
       bind_outcome (store objectB valueB st) (\<lambda>_ st.
         Returned valueA st)))"

definition parseArgsToObjectTriple ::
  "'w extern \<Rightarrow> ptr \<Rightarrow> ptr \<Rightarrow> ptr \<Rightarrow> ptr \<Rightarrow> 'w state \<Rightarrow> (ptr, 'w state) outcome" where
  "parseArgsToObjectTriple ext args objectB objectC error st0 =
     bind_outcome (call_pyarg_parsetuple ext args ''OOO'' 3 st0) (\<lambda>(result, outs) st.
       let valueA = outs 0; valueB = outs 1; valueC = outs 2 in
       bind_outcome (store error (scast result) st) (\<lambda>_ st.
       bind_outcome (store objectB valueB st) (\<lambda>_ st.
       bind_outcome (store objectC valueC st) (\<lambda>_ st.
         Returned valueA st))))"

subsection \<open>The wrap functions\<close>

definition wrapLongInt :: "'w extern \<Rightarrow> c_long \<Rightarrow> 'w state \<Rightarrow> (ptr, 'w state) outcome" where
  "wrapLongInt ext v st0 =
     bind_outcome (call_py_buildvalue ext ''l'' [v] st0) (\<lambda>pyValue st.
       Returned pyValue st)"

definition wrapString :: "'w extern \<Rightarrow> ptr \<Rightarrow> 'w state \<Rightarrow> (ptr, 'w state) outcome" where
  "wrapString ext v st0 =
     bind_outcome (call_py_buildvalue ext ''s'' [v] st0) (\<lambda>pyValue st.
       Returned pyValue st)"

definition wrapDouble :: "'w extern \<Rightarrow> c_double \<Rightarrow> 'w state \<Rightarrow> (ptr, 'w state) outcome" where
  "wrapDouble ext v st0 =
     bind_outcome (call_py_buildvalue ext ''d'' [v] st0) (\<lambda>pyValue st.
       Returned pyValue st)"

definition wrapObject :: "'w extern \<Rightarrow> ptr \<Rightarrow> 'w state \<Rightarrow> (ptr, 'w state) outcome" where
  "wrapObject ext v st0 =
     bind_outcome (call_py_buildvalue ext ''O'' [v] st0) (\<lambda>pyValue st.
       Returned pyValue st)"

definition wrapBool :: "'w extern \<Rightarrow> c_long \<Rightarrow> 'w state \<Rightarrow> (ptr, 'w state) outcome" where
  "wrapBool ext v st0 =
     bind_outcome (call_py_boolfromlong ext v st0) (\<lambda>pyValue st.
       Returned pyValue st)"

subsection \<open>The remaining shims\<close>

definition stringFromPythonObject ::
  "'w extern \<Rightarrow> ptr \<Rightarrow> 'w state \<Rightarrow> (ptr, 'w state) outcome" where
  "stringFromPythonObject ext p st = call_pyunicode_asutf8 ext p st"

text \<open>The only function of the file that tests its pointer: \<^verbatim>\<open>printf\<close>, then \<^verbatim>\<open>exit(1)\<close>.\<close>

definition getPyUnicode_FromString ::
  "'w extern \<Rightarrow> ptr \<Rightarrow> 'w state \<Rightarrow> (ptr, 'w state) outcome" where
  "getPyUnicode_FromString ext u st =
     (if pyunicode_fromstring st = NULL
      then Exited 1
             (st\<lparr>stdout := stdout st @ ''Lambda functions not available on Python 2!'' @ [CHR 0x0A]\<rparr>)
      else call_pyunicode_fromstring ext u st)"

definition createPyCFunction ::
  "'w extern \<Rightarrow> ptr \<Rightarrow> ptr \<Rightarrow> 'w state \<Rightarrow> (ptr, 'w state) outcome" where
  "createPyCFunction ext ml data st = call_py_createPyCFunction ext ml data NULL st"

text \<open>
  \<^verbatim>\<open>printf("variable %s has value %#llx\n", varName, (unsigned long long)value)\<close>.
  \<^verbatim>\<open>%#llx\<close> prints zero as \<^verbatim>\<open>0\<close> and every other value in lower-case hexadecimal
  after \<^verbatim>\<open>0x\<close>; \<^verbatim>\<open>%s\<close> reads the string at \<^verbatim>\<open>varName\<close>, undefined where there is none.
\<close>

definition hex_digit :: "nat \<Rightarrow> char" where
  "hex_digit n = ''0123456789abcdef'' ! (n mod 16)"

fun hex_nat :: "nat \<Rightarrow> string" where
  "hex_nat n = (if n < 16 then [hex_digit n] else hex_nat (n div 16) @ [hex_digit n])"

definition format_llx_alt :: "64 word \<Rightarrow> string" where
  "format_llx_alt v = (if v = 0 then ''0'' else ''0x'' @ hex_nat (unat v))"

definition debug_showAddress ::
  "'w extern \<Rightarrow> ptr \<Rightarrow> ptr \<Rightarrow> 'w state \<Rightarrow> (unit, 'w state) outcome" where
  "debug_showAddress ext varName v st =
     (case c_string ext varName of
        None \<Rightarrow> Undefined
      | Some name \<Rightarrow>
          Returned ()
            (st\<lparr>stdout := stdout st @ ''variable '' @ name @ '' has value '' @
                  format_llx_alt v @ [CHR 0x0A]\<rparr>))"

subsection \<open>The interface of LambdaBuilder.h\<close>

text \<open>
  One constructor for each function the header declares after
  \<^verbatim>\<open>initialisePythonLibrary\<close>, with its arguments in the declared order. \<open>run\<close> makes
  the call; the result is \<open>Some\<close> of the returned value, \<open>None\<close> for the
  \<^verbatim>\<open>void\<close> function.
\<close>

datatype shim_call =
    ParseArgsToLongInt ptr ptr
  | ParseArgsToString ptr ptr
  | ParseArgsToObject ptr ptr
  | ParseArgsToDouble ptr ptr
  | ParseArgsToObjectPair ptr ptr ptr
  | ParseArgsToObjectTriple ptr ptr ptr ptr
  | WrapLongInt c_long
  | WrapString ptr
  | WrapObject ptr
  | WrapDouble c_double
  | WrapBool c_long
  | StringFromPythonObject ptr
  | GetPyUnicode_FromString ptr
  | CreatePyCFunction ptr ptr
  | Debug_showAddress ptr ptr

definition with_value :: "(cell, 's) outcome \<Rightarrow> (cell option, 's) outcome" where
  "with_value m = bind_outcome m (\<lambda>r s. Returned (Some r) s)"

definition without_value :: "(unit, 's) outcome \<Rightarrow> (cell option, 's) outcome" where
  "without_value m = bind_outcome m (\<lambda>_ s. Returned None s)"

fun run :: "'w extern \<Rightarrow> shim_call \<Rightarrow> 'w state \<Rightarrow> (cell option, 'w state) outcome" where
  "run ext (ParseArgsToLongInt args error) st = with_value (parseArgsToLongInt ext args error st)"
| "run ext (ParseArgsToString args error) st = with_value (parseArgsToString ext args error st)"
| "run ext (ParseArgsToObject args error) st = with_value (parseArgsToObject ext args error st)"
| "run ext (ParseArgsToDouble args error) st = with_value (parseArgsToDouble ext args error st)"
| "run ext (ParseArgsToObjectPair args objectB error) st =
     with_value (parseArgsToObjectPair ext args objectB error st)"
| "run ext (ParseArgsToObjectTriple args objectB objectC error) st =
     with_value (parseArgsToObjectTriple ext args objectB objectC error st)"
| "run ext (WrapLongInt v) st = with_value (wrapLongInt ext v st)"
| "run ext (WrapString v) st = with_value (wrapString ext v st)"
| "run ext (WrapObject v) st = with_value (wrapObject ext v st)"
| "run ext (WrapDouble v) st = with_value (wrapDouble ext v st)"
| "run ext (WrapBool v) st = with_value (wrapBool ext v st)"
| "run ext (StringFromPythonObject p) st = with_value (stringFromPythonObject ext p st)"
| "run ext (GetPyUnicode_FromString u) st = with_value (getPyUnicode_FromString ext u st)"
| "run ext (CreatePyCFunction ml data) st = with_value (createPyCFunction ext ml data st)"
| "run ext (Debug_showAddress varName v) st = without_value (debug_showAddress ext varName v st)"

text \<open>
  The six pointers by role: the symbol \<^verbatim>\<open>initialisePythonLibrary\<close> looks up for each,
  its current value, and the pointer each function of the interface calls through
  (\<^verbatim>\<open>debug_showAddress\<close> calls through none).
\<close>

datatype slot =
    Slot_pyarg_parsetuple
  | Slot_py_buildvalue
  | Slot_pyunicode_asutf8
  | Slot_pyunicode_fromstring
  | Slot_py_createPyCFunction
  | Slot_py_boolfromlong

fun symbol_name :: "slot \<Rightarrow> string" where
  "symbol_name Slot_pyarg_parsetuple = ''PyArg_ParseTuple''"
| "symbol_name Slot_py_buildvalue = ''Py_BuildValue''"
| "symbol_name Slot_pyunicode_asutf8 = ''PyUnicode_AsUTF8''"
| "symbol_name Slot_pyunicode_fromstring = ''PyUnicode_FromString''"
| "symbol_name Slot_py_createPyCFunction = ''PyCFunction_NewEx''"
| "symbol_name Slot_py_boolfromlong = ''PyBool_FromLong''"

fun slot_value :: "slot \<Rightarrow> 'w state \<Rightarrow> ptr" where
  "slot_value Slot_pyarg_parsetuple st = pyarg_parsetuple st"
| "slot_value Slot_py_buildvalue st = py_buildvalue st"
| "slot_value Slot_pyunicode_asutf8 st = pyunicode_asutf8 st"
| "slot_value Slot_pyunicode_fromstring st = pyunicode_fromstring st"
| "slot_value Slot_py_createPyCFunction st = py_createPyCFunction st"
| "slot_value Slot_py_boolfromlong st = py_boolfromlong st"

fun backing_slot :: "shim_call \<Rightarrow> slot option" where
  "backing_slot (ParseArgsToLongInt args error) = Some Slot_pyarg_parsetuple"
| "backing_slot (ParseArgsToString args error) = Some Slot_pyarg_parsetuple"
| "backing_slot (ParseArgsToObject args error) = Some Slot_pyarg_parsetuple"
| "backing_slot (ParseArgsToDouble args error) = Some Slot_pyarg_parsetuple"
| "backing_slot (ParseArgsToObjectPair args objectB error) = Some Slot_pyarg_parsetuple"
| "backing_slot (ParseArgsToObjectTriple args objectB objectC error) = Some Slot_pyarg_parsetuple"
| "backing_slot (WrapLongInt v) = Some Slot_py_buildvalue"
| "backing_slot (WrapString v) = Some Slot_py_buildvalue"
| "backing_slot (WrapObject v) = Some Slot_py_buildvalue"
| "backing_slot (WrapDouble v) = Some Slot_py_buildvalue"
| "backing_slot (WrapBool v) = Some Slot_py_boolfromlong"
| "backing_slot (StringFromPythonObject p) = Some Slot_pyunicode_asutf8"
| "backing_slot (GetPyUnicode_FromString u) = Some Slot_pyunicode_fromstring"
| "backing_slot (CreatePyCFunction ml data) = Some Slot_py_createPyCFunction"
| "backing_slot (Debug_showAddress varName v) = None"


text \<open>
  The seven file-level variables, in the order of their declarations, and the pointers
  of the caller each function stores through, in the order of the stores.
\<close>

definition shim_variables :: "'w state \<Rightarrow> ptr list" where
  "shim_variables st =
     [pythonLibraryHandle st, pyarg_parsetuple st, py_buildvalue st, pyunicode_asutf8 st,
      pyunicode_fromstring st, py_createPyCFunction st, py_boolfromlong st]"


subsection \<open>A stubbed runtime\<close>

text \<open>
  Concrete stand-ins for the loader and the six entry points, to run the shim on. The
  loader knows two libraries: at handle \<open>0x7000\<close> one that exports all six symbols, at
  \<open>0x8000\<close> one in the manner of Python 2, without \<^verbatim>\<open>PyUnicode_FromString\<close> and
  \<^verbatim>\<open>PyUnicode_AsUTF8\<close>. The runtime state counts the calls received. The stub of
  \<^verbatim>\<open>PyArg_ParseTuple\<close> answers the format \<^verbatim>\<open>d\<close> with status 1 and the double 3.14
  (\<open>0x40091EB851EB851F\<close>), the formats \<^verbatim>\<open>O\<close>, \<^verbatim>\<open>OO\<close> and \<^verbatim>\<open>OOO\<close> with status 1 and the
  items \<open>args + 8\<close>, \<open>args + 16\<close>, \<open>args + 24\<close>, and every other format with
  status \<open>-1\<close>, leaving \<open>0xDEAD\<close> in the variables.
\<close>

definition stub_dlsym :: "ptr \<Rightarrow> string \<Rightarrow> ptr" where
  "stub_dlsym handle name =
     (if handle = 0x7000 then
        (case map_of
           [(''PyArg_ParseTuple'', 0x1010), (''Py_BuildValue'', 0x1020),
            (''PyUnicode_AsUTF8'', 0x1030), (''PyUnicode_FromString'', 0x1040),
            (''PyBool_FromLong'', 0x1050), (''PyCFunction_NewEx'', 0x1060)] name of
           None \<Rightarrow> NULL | Some p \<Rightarrow> p)
      else if handle = 0x8000 then
        (case map_of
           [(''PyArg_ParseTuple'', 0x2010), (''Py_BuildValue'', 0x2020),
            (''PyBool_FromLong'', 0x2050), (''PyCFunction_NewEx'', 0x2060)] name of
           None \<Rightarrow> NULL | Some p \<Rightarrow> p)
      else NULL)"

definition stub_parsetuple :: "ptr \<Rightarrow> ptr \<Rightarrow> string \<Rightarrow> nat \<Rightarrow> c_int \<times> (nat \<Rightarrow> cell) \<times> nat" where
  "stub_parsetuple f args format w =
     (if format = ''d'' then (1, (\<lambda>i. 0x40091EB851EB851F), Suc w)
      else if format \<in> set [''O'', ''OO'', ''OOO''] then (1, (\<lambda>i. args + 8 * (1 + of_nat i)), Suc w)
      else (- 1, (\<lambda>i. 0xDEAD), Suc w))"

definition stub :: "nat extern" where
  "stub =
     \<lparr>dlsym = stub_dlsym,
      fn_parsetuple = stub_parsetuple,
      fn_buildvalue = (\<lambda>f format vs w. (0x9000 + 16 * of_nat w, Suc w)),
      fn_asutf8 = (\<lambda>f p w. (p + 48, Suc w)),
      fn_fromstring = (\<lambda>f u w. (0x9000 + 16 * of_nat w, Suc w)),
      fn_newex = (\<lambda>f ml data module. (\<lambda>w. (0x9000 + 16 * of_nat w, Suc w))),
      fn_boolfromlong = (\<lambda>f v w. (if v = 0 then 0xF0 else 0xF8, Suc w)),
      c_string = (\<lambda>p. if p = 0x500 then Some ''x'' else None)\<rparr>"

text \<open>The state at program start (every variable zero), and after resolving against \<open>0x7000\<close>.\<close>

definition fresh :: "nat state" where
  "fresh =
     \<lparr>pythonLibraryHandle = NULL, pyarg_parsetuple = NULL, py_buildvalue = NULL,
      pyunicode_asutf8 = NULL, pyunicode_fromstring = NULL, py_createPyCFunction = NULL,
      py_boolfromlong = NULL, runtime = 0, mem = (\<lambda>p. 0), calls = [], stdout = []\<rparr>"

definition booted :: "nat state" where
  "booted =
     \<lparr>pythonLibraryHandle = 0x7000, pyarg_parsetuple = 0x1010, py_buildvalue = 0x1020,
      pyunicode_asutf8 = 0x1030, pyunicode_fromstring = 0x1040, py_createPyCFunction = 0x1060,
      py_boolfromlong = 0x1050, runtime = 0, mem = (\<lambda>p. 0), calls = [], stdout = []\<rparr>"

section \<open>Properties\<close>

subsection \<open>What each function computes\<close>

text \<open>The result of every function of the file, with the calls of the helpers unfolded.\<close>

lemma initialisePythonLibrary_eq:
  "initialisePythonLibrary ext h st =
     Returned None
       (st\<lparr>pythonLibraryHandle := h,
           pyarg_parsetuple := dlsym ext h ''PyArg_ParseTuple'',
           py_buildvalue := dlsym ext h ''Py_BuildValue'',
           pyunicode_asutf8 := dlsym ext h ''PyUnicode_AsUTF8'',
           pyunicode_fromstring := dlsym ext h ''PyUnicode_FromString'',
           py_boolfromlong := dlsym ext h ''PyBool_FromLong'',
           py_createPyCFunction := dlsym ext h ''PyCFunction_NewEx'',
           calls := calls st @
             [Call_dlsym h ''PyArg_ParseTuple'', Call_dlsym h ''Py_BuildValue'',
              Call_dlsym h ''PyUnicode_AsUTF8'', Call_dlsym h ''PyUnicode_FromString'',
              Call_dlsym h ''PyBool_FromLong'', Call_dlsym h ''PyCFunction_NewEx'']\<rparr>)"
  by (simp add: initialisePythonLibrary_def lookup_symbol_def)

lemma bind_outcome_simps [simp]:
  "bind_outcome Undefined f = Undefined"
  "bind_outcome (Exited c s) f = Exited c s"
  "bind_outcome (Returned r s) f = f r s"
  by (simp_all add: bind_outcome_def)

lemma sint_int_to_long: "sint (scast (x :: c_int) :: c_long) = sint x"
  by (simp add: sint_up_scast is_up)

lemma parse_one_eq:
  "bind_outcome (call_pyarg_parsetuple ext args format 1 st) (\<lambda>(result, outs) st.
       let val = outs 0 in
       bind_outcome (store error (scast result) st) (\<lambda>_ st. Returned val st)) =
   (if pyarg_parsetuple st = NULL \<or> error = NULL then Undefined
    else
      (case fn_parsetuple ext (pyarg_parsetuple st) args format (runtime st) of
         (result, outs, w) \<Rightarrow>
           Returned (outs 0)
             (st\<lparr>runtime := w,
                 calls := calls st @ [Call_parsetuple (pyarg_parsetuple st) args format 1],
                 mem := (mem st)(error := scast result)\<rparr>)))"
  by (simp add: call_pyarg_parsetuple_def store_def Let_def split: prod.splits)

lemma parseArgsToObjectPair_eq:
  "parseArgsToObjectPair ext args objectB error st =
   (if pyarg_parsetuple st = NULL \<or> error = NULL \<or> objectB = NULL then Undefined
    else
      (case fn_parsetuple ext (pyarg_parsetuple st) args ''OO'' (runtime st) of
         (result, outs, w) \<Rightarrow>
           Returned (outs 0)
             (st\<lparr>runtime := w,
                 calls := calls st @ [Call_parsetuple (pyarg_parsetuple st) args ''OO'' 2],
                 mem := (mem st)(error := scast result, objectB := outs 1)\<rparr>)))"
  by (simp add: parseArgsToObjectPair_def call_pyarg_parsetuple_def store_def Let_def
      split: prod.splits)

lemma parseArgsToObjectTriple_eq:
  "parseArgsToObjectTriple ext args objectB objectC error st =
   (if pyarg_parsetuple st = NULL \<or> error = NULL \<or> objectB = NULL \<or> objectC = NULL
    then Undefined
    else
      (case fn_parsetuple ext (pyarg_parsetuple st) args ''OOO'' (runtime st) of
         (result, outs, w) \<Rightarrow>
           Returned (outs 0)
             (st\<lparr>runtime := w,
                 calls := calls st @ [Call_parsetuple (pyarg_parsetuple st) args ''OOO'' 3],
                 mem := (mem st)(error := scast result, objectB := outs 1,
                                 objectC := outs 2)\<rparr>)))"
  by (simp add: parseArgsToObjectTriple_def call_pyarg_parsetuple_def store_def Let_def
      split: prod.splits)

lemma build_one_eq:
  "bind_outcome (call_py_buildvalue ext format vs st) (\<lambda>pyValue st. Returned pyValue st) =
   (if py_buildvalue st = NULL then Undefined
    else
      (case fn_buildvalue ext (py_buildvalue st) format vs (runtime st) of
         (r, w) \<Rightarrow>
           Returned r
             (st\<lparr>runtime := w,
                 calls := calls st @ [Call_buildvalue (py_buildvalue st) format vs]\<rparr>)))"
  by (simp add: call_py_buildvalue_def Let_def split: prod.splits)

lemma wrapBool_eq:
  "wrapBool ext v st =
   (if py_boolfromlong st = NULL then Undefined
    else
      (case fn_boolfromlong ext (py_boolfromlong st) v (runtime st) of
         (r, w) \<Rightarrow>
           Returned r
             (st\<lparr>runtime := w,
                 calls := calls st @ [Call_boolfromlong (py_boolfromlong st) v]\<rparr>)))"
  by (simp add: wrapBool_def call_py_boolfromlong_def Let_def split: prod.splits)

lemma stringFromPythonObject_eq:
  "stringFromPythonObject ext p st =
   (if pyunicode_asutf8 st = NULL then Undefined
    else
      (case fn_asutf8 ext (pyunicode_asutf8 st) p (runtime st) of
         (r, w) \<Rightarrow>
           Returned r
             (st\<lparr>runtime := w,
                 calls := calls st @ [Call_asutf8 (pyunicode_asutf8 st) p]\<rparr>)))"
  by (simp add: stringFromPythonObject_def call_pyunicode_asutf8_def Let_def split: prod.splits)

lemma getPyUnicode_FromString_eq:
  "getPyUnicode_FromString ext u st =
   (if pyunicode_fromstring st = NULL
    then Exited 1
           (st\<lparr>stdout := stdout st @ ''Lambda functions not available on Python 2!'' @ [CHR 0x0A]\<rparr>)
    else
      (case fn_fromstring ext (pyunicode_fromstring st) u (runtime st) of
         (r, w) \<Rightarrow>
           Returned r
             (st\<lparr>runtime := w,
                 calls := calls st @ [Call_fromstring (pyunicode_fromstring st) u]\<rparr>)))"
  by (simp add: getPyUnicode_FromString_def call_pyunicode_fromstring_def Let_def
      split: prod.splits)

lemma createPyCFunction_eq:
  "createPyCFunction ext ml data st =
   (if py_createPyCFunction st = NULL then Undefined
    else
      (case fn_newex ext (py_createPyCFunction st) ml data NULL (runtime st) of
         (r, w) \<Rightarrow>
           Returned r
             (st\<lparr>runtime := w,
                 calls := calls st @ [Call_newex (py_createPyCFunction st) ml data NULL]\<rparr>)))"
  by (simp add: createPyCFunction_def call_py_createPyCFunction_def Let_def split: prod.splits)

lemmas parse_eqs =
  parse_one_eq [of _ _ "''s''", folded parseArgsToString_def]
  parse_one_eq [of _ _ "''d''", folded parseArgsToDouble_def]
  parse_one_eq [of _ _ "''l''", folded parseArgsToLongInt_def]
  parse_one_eq [of _ _ "''O''", folded parseArgsToObject_def]
  parseArgsToObjectPair_eq parseArgsToObjectTriple_eq

lemmas wrap_eqs =
  build_one_eq [of _ "''l''" "[v]" for v, folded wrapLongInt_def]
  build_one_eq [of _ "''s''" "[v]" for v, folded wrapString_def]
  build_one_eq [of _ "''d''" "[v]" for v, folded wrapDouble_def]
  build_one_eq [of _ "''O''" "[v]" for v, folded wrapObject_def]
  wrapBool_eq


lemma debug_showAddress_eq:
  "debug_showAddress ext varName v st =
   (case c_string ext varName of
      None \<Rightarrow> Undefined
    | Some name \<Rightarrow>
        Returned ()
          (st\<lparr>stdout := stdout st @ ''variable '' @ name @ '' has value '' @
                format_llx_alt v @ [CHR 0x0A]\<rparr>))"
  by (simp add: debug_showAddress_def)

lemmas shim_eqs =
  parse_eqs wrap_eqs stringFromPythonObject_eq getPyUnicode_FromString_eq
  createPyCFunction_eq debug_showAddress_eq

lemma with_value_simps [simp]:
  "with_value Undefined = Undefined"
  "with_value (Exited c s) = Exited c s"
  "with_value (Returned r s) = Returned (Some r) s"
  by (simp_all add: with_value_def)

lemma without_value_simps [simp]:
  "without_value Undefined = Undefined"
  "without_value (Exited c s) = Exited c s"
  "without_value (Returned u s) = Returned None s"
  by (simp_all add: without_value_def)

lemma run_unresolved:
  assumes "backing_slot c = Some s" and "slot_value s st = NULL"
  shows "run ext c st =
     (case c of
        GetPyUnicode_FromString u \<Rightarrow>
          Exited 1
            (st\<lparr>stdout := stdout st @ ''Lambda functions not available on Python 2!'' @ [CHR 0x0A]\<rparr>)
      | _ \<Rightarrow> Undefined)"
  using assms by (cases c) (auto simp: shim_eqs)

subsection \<open>Symbol resolution\<close>

text \<open>
  Claim C1. For every library handle \<open>h\<close>, \<^verbatim>\<open>initialisePythonLibrary\<close> returns, having
  looked up against \<open>h\<close> exactly the six names \<^verbatim>\<open>PyArg_ParseTuple\<close>, \<^verbatim>\<open>Py_BuildValue\<close>,
  \<^verbatim>\<open>PyUnicode_AsUTF8\<close>, \<^verbatim>\<open>PyUnicode_FromString\<close>, \<^verbatim>\<open>PyBool_FromLong\<close> and
  \<^verbatim>\<open>PyCFunction_NewEx\<close>; afterwards each of the six pointers holds the result of the
  lookup of its own name, and the stored handle is \<open>h\<close>.
\<close>

theorem initialise_resolves_six_symbols:
  "\<exists>r st'. initialisePythonLibrary ext h st = Returned r st' \<and>
     pythonLibraryHandle st' = h \<and>
     pyarg_parsetuple st' = dlsym ext h ''PyArg_ParseTuple'' \<and>
     py_buildvalue st' = dlsym ext h ''Py_BuildValue'' \<and>
     pyunicode_asutf8 st' = dlsym ext h ''PyUnicode_AsUTF8'' \<and>
     pyunicode_fromstring st' = dlsym ext h ''PyUnicode_FromString'' \<and>
     py_boolfromlong st' = dlsym ext h ''PyBool_FromLong'' \<and>
     py_createPyCFunction st' = dlsym ext h ''PyCFunction_NewEx'' \<and>
     calls st' = calls st @
       [Call_dlsym h ''PyArg_ParseTuple'', Call_dlsym h ''Py_BuildValue'',
        Call_dlsym h ''PyUnicode_AsUTF8'', Call_dlsym h ''PyUnicode_FromString'',
        Call_dlsym h ''PyBool_FromLong'', Call_dlsym h ''PyCFunction_NewEx'']"
  by (simp add: initialisePythonLibrary_eq)

text \<open>
  Claim C5. If the lookup of the symbol of a pointer fails (returns null),
  \<^verbatim>\<open>initialisePythonLibrary\<close> still returns and prints nothing: no error is raised at
  resolution time, and the pointer is null afterwards. The failure shows at the first
  use: a function that calls through that pointer does not return.
\<close>

theorem absent_symbol_leaves_slot_null:
  assumes "dlsym ext h (symbol_name s) = NULL" and "backing_slot c = Some s"
  shows "\<exists>r st'. initialisePythonLibrary ext h st = Returned r st' \<and>
           slot_value s st' = NULL \<and> stdout st' = stdout st \<and>
           (\<forall>v st''. run ext c st' \<noteq> Returned v st'')"
proof -
  let ?st' = "st\<lparr>pythonLibraryHandle := h,
           pyarg_parsetuple := dlsym ext h ''PyArg_ParseTuple'',
           py_buildvalue := dlsym ext h ''Py_BuildValue'',
           pyunicode_asutf8 := dlsym ext h ''PyUnicode_AsUTF8'',
           pyunicode_fromstring := dlsym ext h ''PyUnicode_FromString'',
           py_boolfromlong := dlsym ext h ''PyBool_FromLong'',
           py_createPyCFunction := dlsym ext h ''PyCFunction_NewEx'',
           calls := calls st @
             [Call_dlsym h ''PyArg_ParseTuple'', Call_dlsym h ''Py_BuildValue'',
              Call_dlsym h ''PyUnicode_AsUTF8'', Call_dlsym h ''PyUnicode_FromString'',
              Call_dlsym h ''PyBool_FromLong'', Call_dlsym h ''PyCFunction_NewEx'']\<rparr>"
  have ret: "initialisePythonLibrary ext h st = Returned None ?st'"
    by (rule initialisePythonLibrary_eq)
  have null: "slot_value s ?st' = NULL"
    using assms(1) by (cases s) simp_all
  have "run ext c ?st' \<noteq> Returned v st''" for v st''
    using run_unresolved [OF assms(2) null, of ext] by (cases c) simp_all
  with ret null show ?thesis by simp
qed

theorem absent_symbol_leaves_slot_null_witness:
  "dlsym stub 0x8000 (symbol_name Slot_pyunicode_asutf8) = NULL \<and>
   backing_slot (StringFromPythonObject 0x9000) = Some Slot_pyunicode_asutf8 \<and>
   (\<exists>r st'. initialisePythonLibrary stub 0x8000 fresh = Returned r st' \<and>
      slot_value Slot_pyunicode_asutf8 st' = NULL \<and> stdout st' = stdout fresh \<and>
      (\<forall>v st''. run stub (StringFromPythonObject 0x9000) st' \<noteq> Returned v st''))"
  using absent_symbol_leaves_slot_null
    [where ext = stub and h = "0x8000" and s = Slot_pyunicode_asutf8
       and c = "StringFromPythonObject 0x9000" and st = fresh]
  by (simp add: stub_def stub_dlsym_def)

text \<open>
  Claim C6. Calling \<^verbatim>\<open>initialisePythonLibrary\<close> a second time with the same handle leaves
  the stored handle and the six pointers as the first call left them (and the runtime,
  the caller's memory and the output as well). The second call does its work again: it
  makes the same six lookups against the handle, which the record of calls gains in
  order, and it stores the handle and each lookup result in its variable.
\<close>

theorem initialise_twice_as_once:
  "\<exists>r1 st1 r2 st2.
     initialisePythonLibrary ext h st = Returned r1 st1 \<and>
     initialisePythonLibrary ext h st1 = Returned r2 st2 \<and>
     shim_variables st2 = shim_variables st1 \<and>
     runtime st2 = runtime st1 \<and> mem st2 = mem st1 \<and> stdout st2 = stdout st1 \<and>
     pythonLibraryHandle st2 = h \<and>
     pyarg_parsetuple st2 = dlsym ext h ''PyArg_ParseTuple'' \<and>
     py_buildvalue st2 = dlsym ext h ''Py_BuildValue'' \<and>
     pyunicode_asutf8 st2 = dlsym ext h ''PyUnicode_AsUTF8'' \<and>
     pyunicode_fromstring st2 = dlsym ext h ''PyUnicode_FromString'' \<and>
     py_boolfromlong st2 = dlsym ext h ''PyBool_FromLong'' \<and>
     py_createPyCFunction st2 = dlsym ext h ''PyCFunction_NewEx'' \<and>
     calls st1 = calls st @
       [Call_dlsym h ''PyArg_ParseTuple'', Call_dlsym h ''Py_BuildValue'',
        Call_dlsym h ''PyUnicode_AsUTF8'', Call_dlsym h ''PyUnicode_FromString'',
        Call_dlsym h ''PyBool_FromLong'', Call_dlsym h ''PyCFunction_NewEx''] \<and>
     calls st2 = calls st1 @
       [Call_dlsym h ''PyArg_ParseTuple'', Call_dlsym h ''Py_BuildValue'',
        Call_dlsym h ''PyUnicode_AsUTF8'', Call_dlsym h ''PyUnicode_FromString'',
        Call_dlsym h ''PyBool_FromLong'', Call_dlsym h ''PyCFunction_NewEx'']"
  by (simp add: initialisePythonLibrary_eq shim_variables_def)

text \<open>
  Claim C7 says that \<^verbatim>\<open>initialisePythonLibrary\<close> returns an integer status to its caller.
  The function is declared \<^verbatim>\<open>int\<close> in LambdaBuilder.h and LambdaBuilder.c, but its body
  ends without a \<^verbatim>\<open>return\<close> statement. Run on the stub library \<open>0x7000\<close> from the
  initial state, it resolves the six symbols and returns no value.
\<close>

theorem initialise_returns_no_value:
  "initialisePythonLibrary stub 0x7000 fresh =
     Returned None
       (booted\<lparr>calls :=
          [Call_dlsym 0x7000 ''PyArg_ParseTuple'', Call_dlsym 0x7000 ''Py_BuildValue'',
           Call_dlsym 0x7000 ''PyUnicode_AsUTF8'', Call_dlsym 0x7000 ''PyUnicode_FromString'',
           Call_dlsym 0x7000 ''PyBool_FromLong'', Call_dlsym 0x7000 ''PyCFunction_NewEx'']\<rparr>)"
  by (simp add: initialisePythonLibrary_eq stub_def stub_dlsym_def fresh_def booted_def)

subsection \<open>Parsing\<close>

text \<open>
  Claim C2. With \<^verbatim>\<open>PyArg_ParseTuple\<close> resolved, and out-pointers that are non-null and
  point to different objects, each of the six parse functions calls the resolved entry
  point exactly once, on the argument tuple it was given and with its own format
  (\<^verbatim>\<open>s\<close>, \<^verbatim>\<open>l\<close>, \<^verbatim>\<open>d\<close>, \<^verbatim>\<open>O\<close>, \<^verbatim>\<open>OO\<close>, \<^verbatim>\<open>OOO\<close>). It returns the first value the call
  produced, stores the second and third through \<^verbatim>\<open>objectB\<close> and \<^verbatim>\<open>objectC\<close>, and
  leaves in \<^verbatim>\<open>*error\<close> the integer status the call returned.
\<close>

theorem parse_delegates_to_pyarg_parsetuple:
  assumes "pyarg_parsetuple st \<noteq> NULL"
  shows
  "(error \<noteq> NULL \<longrightarrow>
      (let (result, outs, w) = fn_parsetuple ext (pyarg_parsetuple st) args ''s'' (runtime st)
       in \<exists>st'. parseArgsToString ext args error st = Returned (outs 0) st' \<and>
            sint (mem st' error) = sint result \<and> runtime st' = w \<and>
            calls st' = calls st @ [Call_parsetuple (pyarg_parsetuple st) args ''s'' 1]) \<and>
      (let (result, outs, w) = fn_parsetuple ext (pyarg_parsetuple st) args ''l'' (runtime st)
       in \<exists>st'. parseArgsToLongInt ext args error st = Returned (outs 0) st' \<and>
            sint (mem st' error) = sint result \<and> runtime st' = w \<and>
            calls st' = calls st @ [Call_parsetuple (pyarg_parsetuple st) args ''l'' 1]) \<and>
      (let (result, outs, w) = fn_parsetuple ext (pyarg_parsetuple st) args ''d'' (runtime st)
       in \<exists>st'. parseArgsToDouble ext args error st = Returned (outs 0) st' \<and>
            sint (mem st' error) = sint result \<and> runtime st' = w \<and>
            calls st' = calls st @ [Call_parsetuple (pyarg_parsetuple st) args ''d'' 1]) \<and>
      (let (result, outs, w) = fn_parsetuple ext (pyarg_parsetuple st) args ''O'' (runtime st)
       in \<exists>st'. parseArgsToObject ext args error st = Returned (outs 0) st' \<and>
            sint (mem st' error) = sint result \<and> runtime st' = w \<and>
            calls st' = calls st @ [Call_parsetuple (pyarg_parsetuple st) args ''O'' 1])) \<and>
   (error \<noteq> NULL \<and> objectB \<noteq> NULL \<and> error \<noteq> objectB \<longrightarrow>
      (let (result, outs, w) = fn_parsetuple ext (pyarg_parsetuple st) args ''OO'' (runtime st)
       in \<exists>st'. parseArgsToObjectPair ext args objectB error st = Returned (outs 0) st' \<and>
            mem st' objectB = outs 1 \<and>
            sint (mem st' error) = sint result \<and> runtime st' = w \<and>
            calls st' = calls st @ [Call_parsetuple (pyarg_parsetuple st) args ''OO'' 2])) \<and>
   (error \<noteq> NULL \<and> objectB \<noteq> NULL \<and> objectC \<noteq> NULL \<and>
    error \<noteq> objectB \<and> error \<noteq> objectC \<and> objectB \<noteq> objectC \<longrightarrow>
      (let (result, outs, w) = fn_parsetuple ext (pyarg_parsetuple st) args ''OOO'' (runtime st)
       in \<exists>st'. parseArgsToObjectTriple ext args objectB objectC error st = Returned (outs 0) st' \<and>
            mem st' objectB = outs 1 \<and> mem st' objectC = outs 2 \<and>
            sint (mem st' error) = sint result \<and> runtime st' = w \<and>
            calls st' = calls st @ [Call_parsetuple (pyarg_parsetuple st) args ''OOO'' 3]))"
  using assms by (simp add: parse_eqs sint_int_to_long split: prod.splits)

theorem parse_delegates_to_pyarg_parsetuple_witness:
  "pyarg_parsetuple booted \<noteq> NULL \<and> (0x100 :: ptr) \<noteq> NULL \<and> (0x108 :: ptr) \<noteq> NULL \<and>
   (0x110 :: ptr) \<noteq> NULL \<and> (0x100 :: ptr) \<noteq> 0x108 \<and> (0x100 :: ptr) \<noteq> 0x110 \<and>
   (0x108 :: ptr) \<noteq> 0x110 \<and>
   (\<exists>st'. parseArgsToDouble stub 0x10 0x100 booted = Returned 0x40091EB851EB851F st' \<and>
       sint (mem st' 0x100) = 1 \<and> calls st' = [Call_parsetuple 0x1010 0x10 ''d'' 1]) \<and>
   (\<exists>st'. parseArgsToString stub 0x10 0x100 booted = Returned 0xDEAD st' \<and>
       sint (mem st' 0x100) = - 1 \<and> calls st' = [Call_parsetuple 0x1010 0x10 ''s'' 1]) \<and>
   (\<exists>st'. parseArgsToObjectTriple stub 0x10 0x108 0x110 0x100 booted = Returned 0x18 st' \<and>
       mem st' 0x108 = 0x20 \<and> mem st' 0x110 = 0x28 \<and> sint (mem st' 0x100) = 1 \<and>
       calls st' = [Call_parsetuple 0x1010 0x10 ''OOO'' 3])"
  using parse_delegates_to_pyarg_parsetuple
    [where st = booted and ext = stub and args = "0x10" and error = "0x100"
       and objectB = "0x108" and objectC = "0x110"]
  by (auto simp: booted_def stub_def stub_parsetuple_def)

subsection \<open>Wrapping\<close>

text \<open>
  Claim C3. With its entry point resolved, each wrap function makes exactly one call
  through it and returns the result of that call unchanged: \<^verbatim>\<open>wrapLongInt\<close>,
  \<^verbatim>\<open>wrapString\<close>, \<^verbatim>\<open>wrapDouble\<close> and \<^verbatim>\<open>wrapObject\<close> call \<^verbatim>\<open>Py_BuildValue\<close> with the
  format \<^verbatim>\<open>l\<close>, \<^verbatim>\<open>s\<close>, \<^verbatim>\<open>d\<close>, \<^verbatim>\<open>O\<close> and the given value as the only further argument;
  \<^verbatim>\<open>wrapBool\<close> calls \<^verbatim>\<open>PyBool_FromLong\<close> on the given value.
\<close>

theorem wrap_delegates_unchanged:
  "(py_buildvalue st \<noteq> NULL \<longrightarrow>
      (let (r, w) = fn_buildvalue ext (py_buildvalue st) ''l'' [n] (runtime st)
       in wrapLongInt ext n st =
            Returned r (st\<lparr>runtime := w,
              calls := calls st @ [Call_buildvalue (py_buildvalue st) ''l'' [n]]\<rparr>)) \<and>
      (let (r, w) = fn_buildvalue ext (py_buildvalue st) ''s'' [s] (runtime st)
       in wrapString ext s st =
            Returned r (st\<lparr>runtime := w,
              calls := calls st @ [Call_buildvalue (py_buildvalue st) ''s'' [s]]\<rparr>)) \<and>
      (let (r, w) = fn_buildvalue ext (py_buildvalue st) ''d'' [d] (runtime st)
       in wrapDouble ext d st =
            Returned r (st\<lparr>runtime := w,
              calls := calls st @ [Call_buildvalue (py_buildvalue st) ''d'' [d]]\<rparr>)) \<and>
      (let (r, w) = fn_buildvalue ext (py_buildvalue st) ''O'' [obj] (runtime st)
       in wrapObject ext obj st =
            Returned r (st\<lparr>runtime := w,
              calls := calls st @ [Call_buildvalue (py_buildvalue st) ''O'' [obj]]\<rparr>))) \<and>
   (py_boolfromlong st \<noteq> NULL \<longrightarrow>
      (let (r, w) = fn_boolfromlong ext (py_boolfromlong st) b (runtime st)
       in wrapBool ext b st =
            Returned r (st\<lparr>runtime := w,
              calls := calls st @ [Call_boolfromlong (py_boolfromlong st) b]\<rparr>)))"
  by (simp add: wrap_eqs split: prod.splits)

theorem wrap_delegates_unchanged_witness:
  "py_buildvalue booted \<noteq> NULL \<and> py_boolfromlong booted \<noteq> NULL \<and>
   wrapLongInt stub 42 booted =
     Returned 0x9000 (booted\<lparr>runtime := 1, calls := [Call_buildvalue 0x1020 ''l'' [42]]\<rparr>) \<and>
   wrapDouble stub 0x40091EB851EB851F booted =
     Returned 0x9000
       (booted\<lparr>runtime := 1, calls := [Call_buildvalue 0x1020 ''d'' [0x40091EB851EB851F]]\<rparr>) \<and>
   wrapBool stub 0 booted =
     Returned 0xF0 (booted\<lparr>runtime := 1, calls := [Call_boolfromlong 0x1050 0]\<rparr>)"
  using wrap_delegates_unchanged
    [where st = booted and ext = stub and n = 42 and d = "0x40091EB851EB851F" and b = 0]
  by (simp add: booted_def stub_def)

subsection \<open>The guarded and the module-less shim\<close>

text \<open>
  Claim C4. For every string pointer \<open>u\<close>: if the pointer to \<^verbatim>\<open>PyUnicode_FromString\<close> is
  null, \<^verbatim>\<open>getPyUnicode_FromString\<close> makes no call through it, prints
  \<^verbatim>\<open>Lambda functions not available on Python 2!\<close> and ends the process with status 1;
  if it is not null, the function returns what the resolved entry point returns on \<open>u\<close>.
\<close>

theorem getPyUnicode_FromString_guards_its_slot:
  "(pyunicode_fromstring st = NULL \<longrightarrow>
      getPyUnicode_FromString ext u st =
        Exited 1
          (st\<lparr>stdout := stdout st @ ''Lambda functions not available on Python 2!'' @ [CHR 0x0A]\<rparr>)) \<and>
   (pyunicode_fromstring st \<noteq> NULL \<longrightarrow>
      (let (r, w) = fn_fromstring ext (pyunicode_fromstring st) u (runtime st)
       in getPyUnicode_FromString ext u st =
            Returned r (st\<lparr>runtime := w,
              calls := calls st @ [Call_fromstring (pyunicode_fromstring st) u]\<rparr>)))"
  by (simp add: getPyUnicode_FromString_eq split: prod.splits)

theorem getPyUnicode_FromString_guards_its_slot_witness:
  "pyunicode_fromstring fresh = NULL \<and>
   getPyUnicode_FromString stub 0x500 fresh =
     Exited 1 (fresh\<lparr>stdout := ''Lambda functions not available on Python 2!'' @ [CHR 0x0A]\<rparr>) \<and>
   pyunicode_fromstring booted \<noteq> NULL \<and>
   getPyUnicode_FromString stub 0x500 booted =
     Returned 0x9000 (booted\<lparr>runtime := 1, calls := [Call_fromstring 0x1040 0x500]\<rparr>)"
  using getPyUnicode_FromString_guards_its_slot [where st = fresh and ext = stub and u = "0x500"]
    getPyUnicode_FromString_guards_its_slot [where st = booted and ext = stub and u = "0x500"]
  by (simp add: booted_def fresh_def stub_def)

text \<open>
  Claim C10. With \<^verbatim>\<open>PyCFunction_NewEx\<close> resolved, for every method definition \<open>ml\<close> and
  data object \<open>data\<close>, \<^verbatim>\<open>createPyCFunction\<close> calls the entry point once on \<open>ml\<close>,
  \<open>data\<close> and a null module, and returns its result unchanged. The module argument is
  null whatever the caller passes.
\<close>

theorem createPyCFunction_passes_null_module:
  assumes "py_createPyCFunction st \<noteq> NULL"
  shows "let (r, w) = fn_newex ext (py_createPyCFunction st) ml data NULL (runtime st)
         in createPyCFunction ext ml data st =
              Returned r (st\<lparr>runtime := w,
                calls := calls st @ [Call_newex (py_createPyCFunction st) ml data NULL]\<rparr>)"
  using assms by (simp add: createPyCFunction_eq split: prod.splits)

theorem createPyCFunction_passes_null_module_witness:
  "py_createPyCFunction booted \<noteq> NULL \<and>
   createPyCFunction stub 0x600 0x700 booted =
     Returned 0x9000 (booted\<lparr>runtime := 1, calls := [Call_newex 0x1060 0x600 0x700 NULL]\<rparr>)"
  using createPyCFunction_passes_null_module
    [where st = booted and ext = stub and ml = "0x600" and data = "0x700"]
  by (simp add: booted_def stub_def)

subsection \<open>Unresolved entry points\<close>

text \<open>
  Claim C8. For every function of the interface other than \<^verbatim>\<open>getPyUnicode_FromString\<close>:
  if the pointer it calls through is null, the call has undefined behaviour. No such
  function returns a result or exits in an orderly way in that state.
\<close>

theorem unresolved_slot_call_is_undefined:
  assumes "backing_slot c = Some s" and "slot_value s st = NULL"
    and "\<forall>u. c \<noteq> GetPyUnicode_FromString u"
  shows "run ext c st = Undefined"
  using run_unresolved [OF assms(1,2), of ext] assms(3) by (cases c) simp_all

theorem unresolved_slot_call_is_undefined_witness:
  "backing_slot (WrapDouble 0x40091EB851EB851F) = Some Slot_py_buildvalue \<and>
   slot_value Slot_py_buildvalue fresh = NULL \<and>
   (\<forall>u. WrapDouble 0x40091EB851EB851F \<noteq> GetPyUnicode_FromString u) \<and>
   run stub (WrapDouble 0x40091EB851EB851F) fresh = Undefined"
  using unresolved_slot_call_is_undefined
    [where c = "WrapDouble 0x40091EB851EB851F" and s = Slot_py_buildvalue and st = fresh
       and ext = stub]
  by (simp add: fresh_def)

subsection \<open>Effects\<close>




end
